theory Spec2Isabelle
  imports Main "HOL-Library.Sublist"
begin

section \<open>Run profiles of the test runner plugin (runprofiles.py)\<close>

subsection \<open>Python string operations used by the module\<close>

text \<open>
  The whitespace that \<^verbatim>\<open>str.strip()\<close> removes from a byte string: space, tab,
  line feed, vertical tab, form feed and carriage return.
\<close>

definition isspace :: "char \<Rightarrow> bool" where
  "isspace c = (c = CHR '' '' \<or> c = CHR 0x09 \<or> c = CHR 0x0A \<or> c = CHR 0x0B
                \<or> c = CHR 0x0C \<or> c = CHR 0x0D)"

text \<open>\<^verbatim>\<open>s.strip()\<close>: leading and trailing whitespace removed.\<close>

definition strip :: "string \<Rightarrow> string" where
  "strip s = rev (dropWhile isspace (rev (dropWhile isspace s)))"

text \<open>
  \<^verbatim>\<open>s.split(sep)\<close> for a one-character separator: the pieces between the separators,
  empty pieces kept, so that the empty string gives one empty piece.
\<close>

fun str_split :: "char \<Rightarrow> string \<Rightarrow> string list" where
  "str_split sep [] = [[]]"
| "str_split sep (c # cs) =
     (if c = sep then [] # str_split sep cs
      else (case str_split sep cs of
              [] \<Rightarrow> [[c]]
            | piece # pieces \<Rightarrow> (c # piece) # pieces))"

subsection \<open>The host plugin's settings\<close>

datatype setting_value = BoolValue bool | TextValue string

text \<open>One call of the plugin's \<^verbatim>\<open>save_setting(name, value, delay=...)\<close>.\<close>

record save_call =
  setting_name :: string
  setting_value :: setting_value
  delay :: nat

text \<open>
  The plugin object a profile refers to: the four settings the profile reads, and the
  calls of \<^verbatim>\<open>save_setting\<close> it has received, oldest first.
\<close>

record plugin_state =
  apply_include_tags :: bool
  include_tags :: string
  apply_exclude_tags :: bool
  exclude_tags :: string
  save_calls :: "save_call list"

subsection \<open>Profiles\<close>

datatype profile_class = BaseProfile | PybotProfile

type_synonym ref = nat

text \<open>
  A profile instance: its class, the plugin it was created with and the cached toolbar
  panel (\<^verbatim>\<open>None\<close> until the panel is built).
\<close>

record profile =
  cls :: profile_class
  plugin :: plugin_state
  toolbar :: "ref option"

definition init :: "profile_class \<Rightarrow> plugin_state \<Rightarrow> profile" where
  "init c p = \<lparr>cls = c, plugin = p, toolbar = None\<rparr>"

subsection \<open>The part of wx the module uses\<close>

text \<open>
  Objects of the GUI toolkit are referred to by reference; two references denote the
  identical object exactly when they are equal. A panel has a parent and, once set, a
  sizer; a checkbox has a parent, a title and a value; a text control has a parent, a
  size and a value. A grid-bag sizer records its gaps, the items added with their
  (row, column) position and flag, and the growable columns.
\<close>

datatype sizer_flag = EXPAND

record sizer =
  vgap :: nat
  hgap :: nat
  items :: "(ref \<times> (nat \<times> nat) \<times> sizer_flag) list"
  growable_cols :: "nat list"

datatype widget =
    Panel ref "sizer option"
  | CheckBox ref string bool
  | TextCtrl ref "int \<times> int" string

datatype event_type = EVT_CHECKBOX | EVT_TEXT

datatype handler =
    OnIncludeCheckbox_handler
  | OnExcludeCheckbox_handler
  | OnIncludeTagsChanged_handler
  | OnExcludeTagsChanged_handler

record binding =
  bound_at :: ref
  bound_event :: event_type
  bound_handler :: handler
  bound_source :: "ref option"

record wx_state =
  objects :: "ref \<rightharpoonup> widget"
  next_ref :: ref
  bindings :: "binding list"

text \<open>Constructing a wx object: a new reference, never handed out before.\<close>

definition wx_create :: "widget \<Rightarrow> wx_state \<Rightarrow> ref \<times> wx_state" where
  "wx_create obj w =
     (next_ref w, w\<lparr>objects := (objects w)(next_ref w \<mapsto> obj), next_ref := Suc (next_ref w)\<rparr>)"

definition SetValue :: "ref \<Rightarrow> bool \<Rightarrow> wx_state \<Rightarrow> wx_state" where
  "SetValue checkbox v w =
     (case objects w checkbox of
        Some (CheckBox parent title _) \<Rightarrow>
          w\<lparr>objects := (objects w)(checkbox \<mapsto> CheckBox parent title v)\<rparr>
      | _ \<Rightarrow> w)"

definition Bind :: "ref \<Rightarrow> event_type \<Rightarrow> handler \<Rightarrow> ref option \<Rightarrow> wx_state \<Rightarrow> wx_state" where
  "Bind target evt h source w =
     w\<lparr>bindings := bindings w @
        [\<lparr>bound_at = target, bound_event = evt, bound_handler = h, bound_source = source\<rparr>]\<rparr>"

definition SetSizerAndFit :: "ref \<Rightarrow> sizer \<Rightarrow> wx_state \<Rightarrow> wx_state" where
  "SetSizerAndFit panel sz w =
     (case objects w panel of
        Some (Panel parent _) \<Rightarrow> w\<lparr>objects := (objects w)(panel \<mapsto> Panel parent (Some sz))\<rparr>
      | _ \<Rightarrow> w)"

text \<open>An event delivered to a handler; the handlers read \<^verbatim>\<open>evt.IsChecked()\<close> only.\<close>

record event =
  IsChecked :: bool

subsection \<open>Attribute lookup on a profile\<close>

datatype error = AttributeError string

datatype pyobj =
    PyNone
  | PluginObj plugin_state
  | WxObj ref
  | BoundMethod string
  | PyStr string

definition method_names :: "string list" where
  "method_names =
     [''__init__'', ''get_toolbar'', ''get_custom_args'', ''get_command_prefix'',
      ''TagsPanel'', ''_create_checkbox'', ''set_setting'', ''OnExcludeCheckbox'',
      ''OnIncludeCheckbox'', ''OnIncludeTagsChanged'', ''OnExcludeTagsChanged'']"

text \<open>
  \<^verbatim>\<open>self.<name>\<close>: the instance attributes are the two that \<^verbatim>\<open>__init__\<close> assigns
  (no other method of the module assigns an attribute of \<^verbatim>\<open>self\<close> except
  \<^verbatim>\<open>get_toolbar\<close>, which assigns \<^verbatim>\<open>toolbar\<close>); the class attributes are the
  methods and, on \<^verbatim>\<open>PybotProfile\<close>, \<^verbatim>\<open>name\<close>. Any other name raises
  \<^verbatim>\<open>AttributeError\<close>.
\<close>

definition getattr :: "profile \<Rightarrow> string \<Rightarrow> error + pyobj" where
  "getattr self name =
     (if name = ''plugin'' then Inr (PluginObj (plugin self))
      else if name = ''toolbar''
        then Inr (case toolbar self of None \<Rightarrow> PyNone | Some panel \<Rightarrow> WxObj panel)
      else if name = ''name'' \<and> cls self = PybotProfile then Inr (PyStr ''pybot'')
      else if name \<in> set method_names then Inr (BoundMethod name)
      else Inl (AttributeError name))"

text \<open>\<^verbatim>\<open>obj.GetValue()\<close>: the text of a text control, the state of a checkbox.\<close>

definition GetValue :: "pyobj \<Rightarrow> wx_state \<Rightarrow> error + setting_value" where
  "GetValue obj w =
     (case obj of
        WxObj r \<Rightarrow>
          (case objects w r of
             Some (TextCtrl _ _ v) \<Rightarrow> Inr (TextValue v)
           | Some (CheckBox _ _ b) \<Rightarrow> Inr (BoolValue b)
           | _ \<Rightarrow> Inl (AttributeError ''GetValue''))
      | _ \<Rightarrow> Inl (AttributeError ''GetValue''))"

subsection \<open>The toolbar panel\<close>

definition create_checkbox :: "profile \<Rightarrow> ref \<Rightarrow> bool \<Rightarrow> string \<Rightarrow> wx_state \<Rightarrow> ref \<times> wx_state" where
  "create_checkbox self parent v title w =
     (let (checkbox, w) = wx_create (CheckBox parent title False) w;
          w = SetValue checkbox v w
      in (checkbox, w))"

definition TagsPanel :: "profile \<Rightarrow> ref \<Rightarrow> wx_state \<Rightarrow> ref \<times> wx_state" where
  "TagsPanel self parent w =
     (let (panel, w) = wx_create (Panel parent None) w;
          (include_cb, w) = create_checkbox self panel (apply_include_tags (plugin self))
                              ''Only run tests with these tags'' w;
          (exclude_cb, w) = create_checkbox self panel (apply_exclude_tags (plugin self))
                              ''Skip tests with these tags'' w;
          (include_tags_ctrl, w) = wx_create (TextCtrl panel (150, - 1) (include_tags (plugin self))) w;
          (exclude_tags_ctrl, w) = wx_create (TextCtrl panel (150, - 1) (exclude_tags (plugin self))) w;
          w = Bind panel EVT_CHECKBOX OnIncludeCheckbox_handler (Some include_cb) w;
          w = Bind panel EVT_CHECKBOX OnExcludeCheckbox_handler (Some exclude_cb) w;
          w = Bind include_tags_ctrl EVT_TEXT OnIncludeTagsChanged_handler None w;
          w = Bind exclude_tags_ctrl EVT_TEXT OnExcludeTagsChanged_handler None w;
          panelsizer = \<lparr>vgap = 2, hgap = 2, items = [], growable_cols = []\<rparr>;
          panelsizer = panelsizer\<lparr>items := items panelsizer @ [(include_cb, (0, 0), EXPAND)]\<rparr>;
          panelsizer = panelsizer\<lparr>items := items panelsizer @ [(exclude_cb, (0, 1), EXPAND)]\<rparr>;
          panelsizer = panelsizer\<lparr>items := items panelsizer @ [(include_tags_ctrl, (1, 0), EXPAND)]\<rparr>;
          panelsizer = panelsizer\<lparr>items := items panelsizer @ [(exclude_tags_ctrl, (1, 1), EXPAND)]\<rparr>;
          panelsizer = panelsizer\<lparr>growable_cols := growable_cols panelsizer @ [0]\<rparr>;
          panelsizer = panelsizer\<lparr>growable_cols := growable_cols panelsizer @ [1]\<rparr>;
          w = SetSizerAndFit panel panelsizer w
      in (panel, w))"

text \<open>
  \<^verbatim>\<open>get_toolbar\<close> returns the panel, the profile (with the panel cached) and the
  state of wx.
\<close>

definition get_toolbar :: "profile \<Rightarrow> ref \<Rightarrow> wx_state \<Rightarrow> ref \<times> profile \<times> wx_state" where
  "get_toolbar self parent w =
     (case toolbar self of
        None \<Rightarrow> (let (panel, w) = TagsPanel self parent w
                 in (panel, self\<lparr>toolbar := Some panel\<rparr>, w))
      | Some panel \<Rightarrow> (panel, self, w))"

subsection \<open>get_custom_args\<close>

text \<open>
  The body of the two \<^verbatim>\<open>for\<close> loops of \<^verbatim>\<open>get_custom_args\<close>, which differ in the
  option name only: each piece is stripped, and a piece that is not empty is formatted
  into the option and appended to \<^verbatim>\<open>args\<close>.
\<close>

fun append_tags :: "string \<Rightarrow> string list \<Rightarrow> string list \<Rightarrow> string list" where
  "append_tags opt [] args = args"
| "append_tags opt (tag # rest) args =
     (let tag = strip tag
      in if length tag > 0 then append_tags opt rest (args @ [opt @ tag])
         else append_tags opt rest args)"

text \<open>
  \<^verbatim>\<open>get_custom_args\<close> returns the list it built; the profile is returned with it, as
  the method leaves it.
\<close>

definition get_custom_args :: "profile \<Rightarrow> string list \<times> profile" where
  "get_custom_args self =
     (let args = [];
          args = (if apply_include_tags (plugin self) \<and> include_tags (plugin self) \<noteq> []
                  then append_tags ''--include='' (str_split CHR '','' (include_tags (plugin self))) args
                  else args);
          args = (if apply_exclude_tags (plugin self) \<and> exclude_tags (plugin self) \<noteq> []
                  then append_tags ''--exclude='' (str_split CHR '','' (exclude_tags (plugin self))) args
                  else args)
      in (args, self))"

text \<open>
  The specification's description of the tokens of one tag string: split on commas,
  trim each segment, drop the empty ones, one token per remaining segment.
\<close>

definition spec_tokens :: "string \<Rightarrow> string \<Rightarrow> string list" where
  "spec_tokens opt tags =
     map (\<lambda>seg. opt @ seg) (filter (\<lambda>seg. seg \<noteq> []) (map strip (str_split CHR '','' tags)))"

subsection \<open>get_command_prefix\<close>

text \<open>The value of \<^verbatim>\<open>os.name\<close> is a parameter.\<close>

definition BaseProfile_get_command_prefix :: "string \<Rightarrow> string list" where
  "BaseProfile_get_command_prefix os_name =
     (if os_name = ''nt'' then [''pybot.bat''] else [''pybot''])"

definition PybotProfile_get_command_prefix :: "string \<Rightarrow> string list" where
  "PybotProfile_get_command_prefix os_name =
     (if os_name = ''nt'' then [''pybot.bat''] else [''pybot''])"

text \<open>Method dispatch: \<^verbatim>\<open>PybotProfile\<close> overrides the method of its base class.\<close>

definition get_command_prefix :: "profile \<Rightarrow> string \<Rightarrow> string list" where
  "get_command_prefix self os_name =
     (case cls self of
        BaseProfile \<Rightarrow> BaseProfile_get_command_prefix os_name
      | PybotProfile \<Rightarrow> PybotProfile_get_command_prefix os_name)"

subsection \<open>Saving settings and the event handlers\<close>

text \<open>
  Modelled from the spec: \<^verbatim>\<open>save_setting\<close> is a method of the host plugin, which
  is not part of this module. The call is recorded with its arguments, and the plugin's
  settings object is "mutated via simple field assignment": a value of the right type
  for one of the four settings is assigned to it.
\<close>

definition save_setting :: "string \<Rightarrow> setting_value \<Rightarrow> nat \<Rightarrow> plugin_state \<Rightarrow> plugin_state" where
  "save_setting name v d p =
     (let p = p\<lparr>save_calls := save_calls p @
                 [\<lparr>setting_name = name, setting_value = v, delay = d\<rparr>]\<rparr>
      in case v of
           BoolValue b \<Rightarrow>
             (if name = ''apply_include_tags'' then p\<lparr>apply_include_tags := b\<rparr>
              else if name = ''apply_exclude_tags'' then p\<lparr>apply_exclude_tags := b\<rparr>
              else p)
         | TextValue t \<Rightarrow>
             (if name = ''include_tags'' then p\<lparr>include_tags := t\<rparr>
              else if name = ''exclude_tags'' then p\<lparr>exclude_tags := t\<rparr>
              else p))"

definition set_setting :: "profile \<Rightarrow> string \<Rightarrow> setting_value \<Rightarrow> profile" where
  "set_setting self name v = self\<lparr>plugin := save_setting name v 2 (plugin self)\<rparr>"

definition OnExcludeCheckbox :: "profile \<Rightarrow> event \<Rightarrow> profile" where
  "OnExcludeCheckbox self evt = set_setting self ''apply_exclude_tags'' (BoolValue (IsChecked evt))"

definition OnIncludeCheckbox :: "profile \<Rightarrow> event \<Rightarrow> profile" where
  "OnIncludeCheckbox self evt = set_setting self ''apply_include_tags'' (BoolValue (IsChecked evt))"

text \<open>
  The two text handlers read \<^verbatim>\<open>self.includeTags\<close> and \<^verbatim>\<open>self.excludeTags\<close>
  before they call \<^verbatim>\<open>set_setting\<close>; an exception leaves the call unmade.
\<close>

definition OnIncludeTagsChanged :: "profile \<Rightarrow> event \<Rightarrow> wx_state \<Rightarrow> error + profile" where
  "OnIncludeTagsChanged self evt w =
     (case getattr self ''includeTags'' of
        Inl e \<Rightarrow> Inl e
      | Inr ctrl \<Rightarrow>
          (case GetValue ctrl w of
             Inl e \<Rightarrow> Inl e
           | Inr v \<Rightarrow> Inr (set_setting self ''include_tags'' v)))"

definition OnExcludeTagsChanged :: "profile \<Rightarrow> event \<Rightarrow> wx_state \<Rightarrow> error + profile" where
  "OnExcludeTagsChanged self evt w =
     (case getattr self ''excludeTags'' of
        Inl e \<Rightarrow> Inl e
      | Inr ctrl \<Rightarrow>
          (case GetValue ctrl w of
             Inl e \<Rightarrow> Inl e
           | Inr v \<Rightarrow> Inr (set_setting self ''exclude_tags'' v)))"

subsection \<open>Sequences of method calls on one profile\<close>

datatype call =
    Call_get_toolbar ref
  | Call_get_custom_args
  | Call_get_command_prefix string
  | Call_TagsPanel ref
  | Call_create_checkbox ref bool string
  | Call_set_setting string setting_value
  | Call_OnExcludeCheckbox event
  | Call_OnIncludeCheckbox event
  | Call_OnIncludeTagsChanged event
  | Call_OnExcludeTagsChanged event

text \<open>
  The effect of one call on the profile and on wx; the value returned is dropped, and a
  call that raises leaves both as they were when the exception was raised.
\<close>

fun perform :: "call \<Rightarrow> profile \<times> wx_state \<Rightarrow> profile \<times> wx_state" where
  "perform (Call_get_toolbar parent) (self, w) = snd (get_toolbar self parent w)"
| "perform Call_get_custom_args (self, w) = (snd (get_custom_args self), w)"
| "perform (Call_get_command_prefix os_name) (self, w) = (self, w)"
| "perform (Call_TagsPanel parent) (self, w) = (self, snd (TagsPanel self parent w))"
| "perform (Call_create_checkbox parent v title) (self, w) =
     (self, snd (create_checkbox self parent v title w))"
| "perform (Call_set_setting name v) (self, w) = (set_setting self name v, w)"
| "perform (Call_OnExcludeCheckbox evt) (self, w) = (OnExcludeCheckbox self evt, w)"
| "perform (Call_OnIncludeCheckbox evt) (self, w) = (OnIncludeCheckbox self evt, w)"
| "perform (Call_OnIncludeTagsChanged evt) (self, w) =
     (case OnIncludeTagsChanged self evt w of Inl e \<Rightarrow> (self, w) | Inr self' \<Rightarrow> (self', w))"
| "perform (Call_OnExcludeTagsChanged evt) (self, w) =
     (case OnExcludeTagsChanged self evt w of Inl e \<Rightarrow> (self, w) | Inr self' \<Rightarrow> (self', w))"

fun run :: "call list \<Rightarrow> profile \<times> wx_state \<Rightarrow> profile \<times> wx_state" where
  "run [] s = s"
| "run (c # cs) s = run cs (perform c s)"

text \<open>The parent window a panel was built for.\<close>

definition panel_parent :: "wx_state \<Rightarrow> ref \<Rightarrow> ref option" where
  "panel_parent w r = (case objects w r of Some (Panel parent _) \<Rightarrow> Some parent | _ \<Rightarrow> None)"

section \<open>Properties\<close>

lemma append_tags_eq:
  "append_tags opt segs args =
     args @ map (\<lambda>seg. opt @ seg) (filter (\<lambda>seg. seg \<noteq> []) (map strip segs))"
  by (induction segs arbitrary: args) (simp_all add: Let_def)

text \<open>A split always gives at least one piece.\<close>

lemma str_split_nonempty: "str_split sep s \<noteq> []"
  by (induction s) (auto split: list.splits)

text \<open>The loops of \<^verbatim>\<open>get_custom_args\<close> compute what the specification describes.\<close>

lemma get_custom_args_eq:
  "fst (get_custom_args self) =
     (if apply_include_tags (plugin self) \<and> include_tags (plugin self) \<noteq> []
      then spec_tokens ''--include='' (include_tags (plugin self)) else [])
     @ (if apply_exclude_tags (plugin self) \<and> exclude_tags (plugin self) \<noteq> []
        then spec_tokens ''--exclude='' (exclude_tags (plugin self)) else [])"
  by (simp add: get_custom_args_def Let_def spec_tokens_def append_tags_eq)

lemma spec_tokens_prefix: "t \<in> set (spec_tokens opt tags) \<Longrightarrow> prefix opt t"
  by (auto simp: spec_tokens_def)

lemma include_not_exclude: "prefix ''--include='' t \<Longrightarrow> \<not> prefix ''--exclude='' t"
  by (auto simp: prefix_def)

lemma filter_spec_tokens_same:
  "filter (prefix opt) (spec_tokens opt tags) = spec_tokens opt tags"
  by (simp add: spec_tokens_def filter_map o_def)

lemma filter_spec_tokens_exclude:
  "filter (prefix ''--include='') (spec_tokens ''--exclude='' tags) = []"
  by (simp add: spec_tokens_def filter_map o_def)

lemma filter_spec_tokens_include:
  "filter (prefix ''--exclude='') (spec_tokens ''--include='' tags) = []"
  by (simp add: spec_tokens_def filter_map o_def)

lemma spec_tokens_example:
  "spec_tokens ''--include='' ''a, b ,,c'' = [''--include=a'', ''--include=b'', ''--include=c'']"
  by (simp add: spec_tokens_def strip_def isspace_def)

subsection \<open>The tokens of get_custom_args\<close>

text \<open>
  Claim C1. \<^verbatim>\<open>get_custom_args\<close> returns the include tokens followed by the exclude
  tokens and nothing else. When the include flag is set and the include string is not
  empty, the tokens that start with \<^verbatim>\<open>--include=\<close> are exactly those the
  specification describes: the string split on commas, each segment trimmed, the empty
  segments dropped, one token per remaining segment, in comma order; likewise for
  exclude. The include string \<^verbatim>\<open>a, b ,,c\<close> with its flag set, and exclude not
  applied, gives the three tokens for a, b and c.
\<close>

theorem get_custom_args_tokens:
  "fst (get_custom_args self) =
     (if apply_include_tags (plugin self) \<and> include_tags (plugin self) \<noteq> []
      then spec_tokens ''--include='' (include_tags (plugin self)) else [])
     @ (if apply_exclude_tags (plugin self) \<and> exclude_tags (plugin self) \<noteq> []
        then spec_tokens ''--exclude='' (exclude_tags (plugin self)) else [])
   \<and> (apply_include_tags (plugin self) \<and> include_tags (plugin self) \<noteq> [] \<longrightarrow>
        filter (prefix ''--include='') (fst (get_custom_args self))
          = spec_tokens ''--include='' (include_tags (plugin self)))
   \<and> (apply_exclude_tags (plugin self) \<and> exclude_tags (plugin self) \<noteq> [] \<longrightarrow>
        filter (prefix ''--exclude='') (fst (get_custom_args self))
          = spec_tokens ''--exclude='' (exclude_tags (plugin self)))
   \<and> (apply_include_tags (plugin self) \<and> include_tags (plugin self) = ''a, b ,,c''
        \<and> \<not> apply_exclude_tags (plugin self) \<longrightarrow>
        fst (get_custom_args self) = [''--include=a'', ''--include=b'', ''--include=c''])"
  by (simp add: get_custom_args_eq filter_spec_tokens_same filter_spec_tokens_exclude
      filter_spec_tokens_include spec_tokens_example)

theorem get_custom_args_tokens_witness:
  "fst (get_custom_args (init BaseProfile
          \<lparr>apply_include_tags = True, include_tags = ''a, b ,,c'',
           apply_exclude_tags = False, exclude_tags = ''x'', save_calls = []\<rparr>))
     = [''--include=a'', ''--include=b'', ''--include=c'']
   \<and> filter (prefix ''--include='') (fst (get_custom_args (init PybotProfile
          \<lparr>apply_include_tags = True, include_tags = '' smoke ,, fast'',
           apply_exclude_tags = True, exclude_tags = ''slow , '', save_calls = []\<rparr>)))
     = [''--include=smoke'', ''--include=fast'']
   \<and> filter (prefix ''--exclude='') (fst (get_custom_args (init PybotProfile
          \<lparr>apply_include_tags = True, include_tags = '' smoke ,, fast'',
           apply_exclude_tags = True, exclude_tags = ''slow , '', save_calls = []\<rparr>)))
     = [''--exclude=slow'']"
  using get_custom_args_tokens [of "init BaseProfile
          \<lparr>apply_include_tags = True, include_tags = ''a, b ,,c'',
           apply_exclude_tags = False, exclude_tags = ''x'', save_calls = []\<rparr>"]
        get_custom_args_tokens [of "init PybotProfile
          \<lparr>apply_include_tags = True, include_tags = '' smoke ,, fast'',
           apply_exclude_tags = True, exclude_tags = ''slow , '', save_calls = []\<rparr>"]
  by (simp add: init_def spec_tokens_def strip_def isspace_def)

text \<open>
  Claim C3. When \<^verbatim>\<open>apply_include_tags\<close> is false, no token of the result starts
  with \<^verbatim>\<open>--include=\<close>, whatever \<^verbatim>\<open>include_tags\<close> holds; and the same for
  exclude.
\<close>

theorem no_tokens_without_apply_flag:
  "(\<not> apply_include_tags (plugin self) \<longrightarrow>
      (\<forall>t \<in> set (fst (get_custom_args self)). \<not> prefix ''--include='' t))
   \<and> (\<not> apply_exclude_tags (plugin self) \<longrightarrow>
      (\<forall>t \<in> set (fst (get_custom_args self)). \<not> prefix ''--exclude='' t))"
  by (auto simp: get_custom_args_eq spec_tokens_def)

theorem no_tokens_without_apply_flag_witness:
  "\<not> apply_include_tags (plugin (init BaseProfile
          \<lparr>apply_include_tags = False, include_tags = ''a,b'',
           apply_exclude_tags = True, exclude_tags = ''c'', save_calls = []\<rparr>))
   \<and> fst (get_custom_args (init BaseProfile
          \<lparr>apply_include_tags = False, include_tags = ''a,b'',
           apply_exclude_tags = True, exclude_tags = ''c'', save_calls = []\<rparr>)) = [''--exclude=c'']
   \<and> \<not> prefix ''--include='' ''--exclude=c''
   \<and> \<not> apply_exclude_tags (plugin (init BaseProfile
          \<lparr>apply_include_tags = True, include_tags = ''a,b'',
           apply_exclude_tags = False, exclude_tags = ''c'', save_calls = []\<rparr>))
   \<and> fst (get_custom_args (init BaseProfile
          \<lparr>apply_include_tags = True, include_tags = ''a,b'',
           apply_exclude_tags = False, exclude_tags = ''c'', save_calls = []\<rparr>))
         = [''--include=a'', ''--include=b'']
   \<and> \<not> prefix ''--exclude='' ''--include=a'' \<and> \<not> prefix ''--exclude='' ''--include=b''"
  using no_tokens_without_apply_flag [of "init BaseProfile
          \<lparr>apply_include_tags = False, include_tags = ''a,b'',
           apply_exclude_tags = True, exclude_tags = ''c'', save_calls = []\<rparr>"]
        no_tokens_without_apply_flag [of "init BaseProfile
          \<lparr>apply_include_tags = True, include_tags = ''a,b'',
           apply_exclude_tags = False, exclude_tags = ''c'', save_calls = []\<rparr>"]
  by (simp add: init_def get_custom_args_def strip_def isspace_def)

text \<open>
  Claim C5. When both flags are set and both tag strings give at least one token, every
  \<^verbatim>\<open>--include=\<close> token of the result stands before every \<^verbatim>\<open>--exclude=\<close>
  token: the result is a non-empty run of include tokens followed by a non-empty run
  of exclude tokens.
\<close>

theorem include_tokens_before_exclude_tokens:
  assumes "apply_include_tags (plugin self)" and "apply_exclude_tags (plugin self)"
    and "spec_tokens ''--include='' (include_tags (plugin self)) \<noteq> []"
    and "spec_tokens ''--exclude='' (exclude_tags (plugin self)) \<noteq> []"
  shows "(\<forall>i j. i < length (fst (get_custom_args self)) \<and> j < length (fst (get_custom_args self))
            \<and> prefix ''--include='' (fst (get_custom_args self) ! i)
            \<and> prefix ''--exclude='' (fst (get_custom_args self) ! j) \<longrightarrow> i < j)
     \<and> (\<exists>incs excs. fst (get_custom_args self) = incs @ excs \<and> incs \<noteq> [] \<and> excs \<noteq> []
            \<and> (\<forall>t \<in> set incs. prefix ''--include='' t)
            \<and> (\<forall>t \<in> set excs. prefix ''--exclude='' t))"
proof -
  let ?incs = "spec_tokens ''--include='' (include_tags (plugin self))"
  let ?excs = "spec_tokens ''--exclude='' (exclude_tags (plugin self))"
  have inc_ne: "include_tags (plugin self) \<noteq> []" and exc_ne: "exclude_tags (plugin self) \<noteq> []"
    using assms(3,4) by (auto simp: spec_tokens_def strip_def)
  have eq: "fst (get_custom_args self) = ?incs @ ?excs"
    using assms(1,2) inc_ne exc_ne by (simp add: get_custom_args_eq)
  have incs: "\<forall>t \<in> set ?incs. prefix ''--include='' t"
    and excs: "\<forall>t \<in> set ?excs. prefix ''--exclude='' t"
    by (auto dest: spec_tokens_prefix)
  have order: "i < j"
    if "i < length (?incs @ ?excs)" "j < length (?incs @ ?excs)"
      "prefix ''--include='' ((?incs @ ?excs) ! i)" "prefix ''--exclude='' ((?incs @ ?excs) ! j)"
    for i j
  proof -
    have "i < length ?incs"
    proof (rule ccontr)
      assume "\<not> i < length ?incs"
      then have "(?incs @ ?excs) ! i \<in> set ?excs"
        using that(1) by (simp add: nth_append)
      then show False
        using excs that(3) include_not_exclude by blast
    qed
    moreover have "\<not> j < length ?incs"
    proof
      assume "j < length ?incs"
      then have "(?incs @ ?excs) ! j \<in> set ?incs"
        by (simp add: nth_append)
      then show False
        using incs that(4) include_not_exclude by blast
    qed
    ultimately show ?thesis by simp
  qed
  show ?thesis
    unfolding eq using order incs excs assms(3,4) by blast
qed

theorem include_tokens_before_exclude_tokens_witness:
  "apply_include_tags (plugin (init PybotProfile
          \<lparr>apply_include_tags = True, include_tags = ''a, b'',
           apply_exclude_tags = True, exclude_tags = ''c'', save_calls = []\<rparr>))
   \<and> apply_exclude_tags (plugin (init PybotProfile
          \<lparr>apply_include_tags = True, include_tags = ''a, b'',
           apply_exclude_tags = True, exclude_tags = ''c'', save_calls = []\<rparr>))
   \<and> spec_tokens ''--include='' ''a, b'' = [''--include=a'', ''--include=b'']
   \<and> spec_tokens ''--exclude='' ''c'' = [''--exclude=c'']
   \<and> fst (get_custom_args (init PybotProfile
          \<lparr>apply_include_tags = True, include_tags = ''a, b'',
           apply_exclude_tags = True, exclude_tags = ''c'', save_calls = []\<rparr>))
       = [''--include=a'', ''--include=b'', ''--exclude=c'']"
  using include_tokens_before_exclude_tokens [of "init PybotProfile
          \<lparr>apply_include_tags = True, include_tags = ''a, b'',
           apply_exclude_tags = True, exclude_tags = ''c'', save_calls = []\<rparr>"]
  by (simp add: init_def get_custom_args_def spec_tokens_def strip_def isspace_def)

text \<open>
  Claim C8. \<^verbatim>\<open>get_custom_args\<close> reads the plugin's settings and writes nothing:
  the profile, the four settings and the list of \<^verbatim>\<open>save_setting\<close> calls are after
  the call what they were before it, and wx is untouched.
\<close>

theorem get_custom_args_reads_only:
  "snd (get_custom_args self) = self
   \<and> save_calls (plugin (snd (get_custom_args self))) = save_calls (plugin self)
   \<and> apply_include_tags (plugin (snd (get_custom_args self))) = apply_include_tags (plugin self)
   \<and> include_tags (plugin (snd (get_custom_args self))) = include_tags (plugin self)
   \<and> apply_exclude_tags (plugin (snd (get_custom_args self))) = apply_exclude_tags (plugin self)
   \<and> exclude_tags (plugin (snd (get_custom_args self))) = exclude_tags (plugin self)
   \<and> perform Call_get_custom_args (self, w) = (self, w)"
  by (simp add: get_custom_args_def Let_def)

theorem get_custom_args_reads_only_witness:
  "fst (get_custom_args (init BaseProfile
      \<lparr>apply_include_tags = True, include_tags = ''smoke'',
       apply_exclude_tags = False, exclude_tags = [], save_calls = []\<rparr>)) = [''--include=smoke'']
   \<and> plugin (snd (get_custom_args (init BaseProfile
      \<lparr>apply_include_tags = True, include_tags = ''smoke'',
       apply_exclude_tags = False, exclude_tags = [], save_calls = []\<rparr>)))
     = \<lparr>apply_include_tags = True, include_tags = ''smoke'',
        apply_exclude_tags = False, exclude_tags = [], save_calls = []\<rparr>"
  using get_custom_args_reads_only [of "init BaseProfile
      \<lparr>apply_include_tags = True, include_tags = ''smoke'',
       apply_exclude_tags = False, exclude_tags = [], save_calls = []\<rparr>"]
  by (simp add: init_def get_custom_args_def strip_def isspace_def)

subsection \<open>The command prefix\<close>

text \<open>
  Claim C4. On \<^verbatim>\<open>BaseProfile\<close> and on \<^verbatim>\<open>PybotProfile\<close>,
  \<^verbatim>\<open>get_command_prefix\<close> returns the one-element list \<^verbatim>\<open>["pybot.bat"]\<close> when
  \<^verbatim>\<open>os.name\<close> is \<^verbatim>\<open>"nt"\<close>, and \<^verbatim>\<open>["pybot"]\<close> otherwise.
\<close>

theorem get_command_prefix_by_os:
  "(os_name = ''nt'' \<longrightarrow>
      BaseProfile_get_command_prefix os_name = [''pybot.bat'']
      \<and> PybotProfile_get_command_prefix os_name = [''pybot.bat'']
      \<and> get_command_prefix self os_name = [''pybot.bat''])
   \<and> (os_name \<noteq> ''nt'' \<longrightarrow>
      BaseProfile_get_command_prefix os_name = [''pybot'']
      \<and> PybotProfile_get_command_prefix os_name = [''pybot'']
      \<and> get_command_prefix self os_name = [''pybot''])"
  by (simp add: BaseProfile_get_command_prefix_def PybotProfile_get_command_prefix_def
      get_command_prefix_def split: profile_class.split)

theorem get_command_prefix_by_os_witness:
  "get_command_prefix (init BaseProfile \<lparr>apply_include_tags = False, include_tags = [], apply_exclude_tags = False, exclude_tags = [], save_calls = []\<rparr>) ''nt'' = [''pybot.bat'']
   \<and> get_command_prefix (init PybotProfile \<lparr>apply_include_tags = False, include_tags = [], apply_exclude_tags = False, exclude_tags = [], save_calls = []\<rparr>) ''nt'' = [''pybot.bat'']
   \<and> ''posix'' \<noteq> ''nt''
   \<and> get_command_prefix (init BaseProfile \<lparr>apply_include_tags = False, include_tags = [], apply_exclude_tags = False, exclude_tags = [], save_calls = []\<rparr>) ''posix'' = [''pybot'']
   \<and> get_command_prefix (init PybotProfile \<lparr>apply_include_tags = False, include_tags = [], apply_exclude_tags = False, exclude_tags = [], save_calls = []\<rparr>) ''posix'' = [''pybot'']"
  using get_command_prefix_by_os [of "''nt''" "init BaseProfile \<lparr>apply_include_tags = False, include_tags = [], apply_exclude_tags = False, exclude_tags = [], save_calls = []\<rparr>"]
    get_command_prefix_by_os [of "''nt''" "init PybotProfile \<lparr>apply_include_tags = False, include_tags = [], apply_exclude_tags = False, exclude_tags = [], save_calls = []\<rparr>"]
    get_command_prefix_by_os [of "''posix''" "init BaseProfile \<lparr>apply_include_tags = False, include_tags = [], apply_exclude_tags = False, exclude_tags = [], save_calls = []\<rparr>"]
    get_command_prefix_by_os [of "''posix''" "init PybotProfile \<lparr>apply_include_tags = False, include_tags = [], apply_exclude_tags = False, exclude_tags = [], save_calls = []\<rparr>"]
  by simp

lemma create_checkbox_cls:
  "create_checkbox (self\<lparr>cls := c\<rparr>) parent v title w = create_checkbox self parent v title w"
  by (simp add: create_checkbox_def)

lemma TagsPanel_cls: "TagsPanel (self\<lparr>cls := c\<rparr>) parent w = TagsPanel self parent w"
  by (simp add: TagsPanel_def create_checkbox_cls)

text \<open>
  Claim C9. The override in \<^verbatim>\<open>PybotProfile\<close> returns what the method of
  \<^verbatim>\<open>BaseProfile\<close> returns, for every value of \<^verbatim>\<open>os.name\<close>: the class of the
  profile makes no difference to \<^verbatim>\<open>get_command_prefix\<close>, nor to the arguments
  \<^verbatim>\<open>get_custom_args\<close> returns or to the panel and the wx objects
  \<^verbatim>\<open>get_toolbar\<close> returns and builds.
\<close>

theorem PybotProfile_override_redundant:
  "PybotProfile_get_command_prefix os_name = BaseProfile_get_command_prefix os_name
   \<and> get_command_prefix (self\<lparr>cls := PybotProfile\<rparr>) os_name
       = get_command_prefix (self\<lparr>cls := BaseProfile\<rparr>) os_name
   \<and> fst (get_custom_args (self\<lparr>cls := PybotProfile\<rparr>))
       = fst (get_custom_args (self\<lparr>cls := BaseProfile\<rparr>))
   \<and> fst (get_toolbar (self\<lparr>cls := PybotProfile\<rparr>) parent w)
       = fst (get_toolbar (self\<lparr>cls := BaseProfile\<rparr>) parent w)
   \<and> snd (snd (get_toolbar (self\<lparr>cls := PybotProfile\<rparr>) parent w))
       = snd (snd (get_toolbar (self\<lparr>cls := BaseProfile\<rparr>) parent w))"
  by (simp add: BaseProfile_get_command_prefix_def PybotProfile_get_command_prefix_def
      get_command_prefix_def get_custom_args_eq get_toolbar_def TagsPanel_cls split_beta
      split: option.split)

theorem PybotProfile_override_redundant_witness:
  "PybotProfile_get_command_prefix ''nt'' = [''pybot.bat'']
   \<and> BaseProfile_get_command_prefix ''nt'' = [''pybot.bat'']
   \<and> PybotProfile_get_command_prefix ''posix'' = [''pybot'']
   \<and> BaseProfile_get_command_prefix ''posix'' = [''pybot'']"
  using PybotProfile_override_redundant [of "''nt''"] PybotProfile_override_redundant [of "''posix''"]
  by (simp add: BaseProfile_get_command_prefix_def)

subsection \<open>The cached toolbar panel\<close>

lemma wx_create_simps:
  "fst (wx_create obj w) = next_ref w"
  "next_ref (snd (wx_create obj w)) = Suc (next_ref w)"
  "objects (snd (wx_create obj w)) = (objects w)(next_ref w \<mapsto> obj)"
  "bindings (snd (wx_create obj w)) = bindings w"
  by (simp_all add: wx_create_def)

lemma create_checkbox_ref: "fst (create_checkbox self parent v title w) = next_ref w"
  by (simp add: create_checkbox_def wx_create_def SetValue_def)

lemma create_checkbox_next:
  "next_ref (snd (create_checkbox self parent v title w)) = Suc (next_ref w)"
  by (simp add: create_checkbox_def wx_create_def SetValue_def)

lemma create_checkbox_objects:
  "objects (snd (create_checkbox self parent v title w))
     = (objects w)(next_ref w \<mapsto> CheckBox parent title v)"
  by (simp add: create_checkbox_def wx_create_def SetValue_def)

lemma TagsPanel_ref: "fst (TagsPanel self parent w) = next_ref w"
  by (simp add: TagsPanel_def Let_def split_beta wx_create_simps)

lemma TagsPanel_next: "next_ref (snd (TagsPanel self parent w)) = next_ref w + 5"
  by (simp add: TagsPanel_def Let_def split_beta wx_create_simps create_checkbox_next
      create_checkbox_ref Bind_def SetSizerAndFit_def create_checkbox_objects)

lemma TagsPanel_old_objects:
  "r < next_ref w \<Longrightarrow> objects (snd (TagsPanel self parent w)) r = objects w r"
  by (simp add: TagsPanel_def Let_def split_beta wx_create_simps create_checkbox_next
      create_checkbox_ref Bind_def SetSizerAndFit_def create_checkbox_objects)

lemma TagsPanel_parent:
  "panel_parent (snd (TagsPanel self parent w)) (next_ref w) = Some parent"
  by (simp add: panel_parent_def TagsPanel_def Let_def split_beta wx_create_simps
      create_checkbox_next create_checkbox_ref Bind_def SetSizerAndFit_def
      create_checkbox_objects)

lemma TagsPanel_objects:
  "objects (snd (TagsPanel self parent w)) (next_ref w)
     = Some (Panel parent (Some \<lparr>vgap = 2, hgap = 2,
         items = [(next_ref w + 1, (0, 0), EXPAND), (next_ref w + 2, (0, 1), EXPAND),
                  (next_ref w + 3, (1, 0), EXPAND), (next_ref w + 4, (1, 1), EXPAND)],
         growable_cols = [0, 1]\<rparr>))"
  "objects (snd (TagsPanel self parent w)) (next_ref w + 1)
     = Some (CheckBox (next_ref w) ''Only run tests with these tags''
         (apply_include_tags (plugin self)))"
  "objects (snd (TagsPanel self parent w)) (next_ref w + 2)
     = Some (CheckBox (next_ref w) ''Skip tests with these tags''
         (apply_exclude_tags (plugin self)))"
  "objects (snd (TagsPanel self parent w)) (next_ref w + 3)
     = Some (TextCtrl (next_ref w) (150, - 1) (include_tags (plugin self)))"
  "objects (snd (TagsPanel self parent w)) (next_ref w + 4)
     = Some (TextCtrl (next_ref w) (150, - 1) (exclude_tags (plugin self)))"
  by (simp_all add: TagsPanel_def Let_def split_beta wx_create_simps create_checkbox_next
      create_checkbox_ref Bind_def SetSizerAndFit_def create_checkbox_objects)

lemma get_toolbar_Some:
  "toolbar self = Some t \<Longrightarrow> get_toolbar self parent w = (t, self, w)"
  by (simp add: get_toolbar_def)

lemma get_toolbar_None:
  "toolbar self = None \<Longrightarrow>
     get_toolbar self parent w
       = (next_ref w, self\<lparr>toolbar := Some (next_ref w)\<rparr>, snd (TagsPanel self parent w))"
  using TagsPanel_ref [of self parent w]
  by (simp add: get_toolbar_def split_beta)

lemma get_toolbar_caches:
  "toolbar (fst (snd (get_toolbar self parent w))) = Some (fst (get_toolbar self parent w))"
  by (cases "toolbar self") (simp_all add: get_toolbar_Some get_toolbar_None)

lemma perform_toolbar:
  "toolbar self = Some t \<Longrightarrow> toolbar (fst (perform c (self, w))) = Some t"
  by (cases c)
    (simp_all add: get_toolbar_Some get_custom_args_def Let_def set_setting_def
      OnExcludeCheckbox_def OnIncludeCheckbox_def OnIncludeTagsChanged_def
      OnExcludeTagsChanged_def split: sum.splits)

lemma perform_next_ref: "next_ref w \<le> next_ref (snd (perform c (self, w)))"
  by (cases c; cases "toolbar self")
    (simp_all add: get_toolbar_Some get_toolbar_None TagsPanel_next create_checkbox_next
      split: sum.splits)

lemma perform_old_objects:
  "r < next_ref w \<Longrightarrow> objects (snd (perform c (self, w))) r = objects w r"
  by (cases c; cases "toolbar self")
    (simp_all add: get_toolbar_Some get_toolbar_None TagsPanel_old_objects
      create_checkbox_objects split: sum.splits)

lemma run_toolbar:
  "toolbar self = Some t \<Longrightarrow> toolbar (fst (run cs (self, w))) = Some t"
proof (induction cs arbitrary: self w)
  case Nil
  then show ?case by simp
next
  case (Cons c cs)
  obtain self' w' where step: "perform c (self, w) = (self', w')"
    by (cases "perform c (self, w)")
  have "toolbar self' = Some t"
    using perform_toolbar [OF Cons.prems, of c w] step by simp
  then show ?case
    using Cons.IH [of self' w'] step by simp
qed

lemma run_old_objects:
  "r < next_ref w \<Longrightarrow> objects (snd (run cs (self, w))) r = objects w r"
proof (induction cs arbitrary: self w)
  case Nil
  then show ?case by simp
next
  case (Cons c cs)
  obtain self' w' where step: "perform c (self, w) = (self', w')"
    by (cases "perform c (self, w)")
  have le: "next_ref w \<le> next_ref w'"
    using perform_next_ref [of w c self] step by simp
  have old: "objects w' r = objects w r"
    using perform_old_objects [OF Cons.prems, of c self] step by simp
  have "objects (snd (run cs (self', w'))) r = objects w' r"
    using Cons.IH [of w' self'] Cons.prems le by simp
  then show ?case
    using step old by simp
qed

text \<open>
  Claim C6. Two calls of \<^verbatim>\<open>get_toolbar\<close> in a row return the identical panel:
  the first call leaves the panel cached in \<^verbatim>\<open>toolbar\<close>, and the second call
  returns the cached panel and changes neither the profile nor wx, so nothing is built
  again. When there was no panel, the first call creates one: the panel is a new
  object of wx with the given parent and its sizer, and with it the two checkboxes and
  the two text controls, five new objects in all, holding the plugin's settings.
\<close>

theorem get_toolbar_twice:
  "(let (t1, self1, w1) = get_toolbar self parent w;
        (t2, self2, w2) = get_toolbar self1 parent w1
    in t2 = t1 \<and> toolbar self1 = Some t1 \<and> self2 = self1 \<and> w2 = w1
       \<and> (toolbar self = None \<longrightarrow>
            (t1, w1) = TagsPanel self parent w
            \<and> t1 = next_ref w \<and> next_ref w1 = next_ref w + 5
            \<and> panel_parent w1 t1 = Some parent
            \<and> objects w1 t1
                = Some (Panel parent (Some \<lparr>vgap = 2, hgap = 2,
                    items = [(t1 + 1, (0, 0), EXPAND), (t1 + 2, (0, 1), EXPAND),
                             (t1 + 3, (1, 0), EXPAND), (t1 + 4, (1, 1), EXPAND)],
                    growable_cols = [0, 1]\<rparr>))
            \<and> objects w1 (t1 + 1)
                = Some (CheckBox t1 ''Only run tests with these tags''
                    (apply_include_tags (plugin self)))
            \<and> objects w1 (t1 + 2)
                = Some (CheckBox t1 ''Skip tests with these tags''
                    (apply_exclude_tags (plugin self)))
            \<and> objects w1 (t1 + 3) = Some (TextCtrl t1 (150, - 1) (include_tags (plugin self)))
            \<and> objects w1 (t1 + 4) = Some (TextCtrl t1 (150, - 1) (exclude_tags (plugin self)))))"
proof -
  obtain t1 self1 w1 where first: "get_toolbar self parent w = (t1, self1, w1)"
    by (cases "get_toolbar self parent w")
  have cached: "toolbar self1 = Some t1"
    using get_toolbar_caches [of self parent w] first by simp
  have second: "get_toolbar self1 parent w1 = (t1, self1, w1)"
    by (rule get_toolbar_Some [OF cached])
  have built: "(t1, w1) = TagsPanel self parent w \<and> t1 = next_ref w
      \<and> w1 = snd (TagsPanel self parent w)" if none: "toolbar self = None"
    using first get_toolbar_None [OF none, of parent w] TagsPanel_ref [of self parent w]
    by (auto simp: prod_eq_iff)
  have created: "next_ref w1 = next_ref w + 5
      \<and> panel_parent w1 t1 = Some parent
      \<and> objects w1 t1
          = Some (Panel parent (Some \<lparr>vgap = 2, hgap = 2,
              items = [(t1 + 1, (0, 0), EXPAND), (t1 + 2, (0, 1), EXPAND),
                       (t1 + 3, (1, 0), EXPAND), (t1 + 4, (1, 1), EXPAND)],
              growable_cols = [0, 1]\<rparr>))
      \<and> objects w1 (t1 + 1)
          = Some (CheckBox t1 ''Only run tests with these tags''
              (apply_include_tags (plugin self)))
      \<and> objects w1 (t1 + 2)
          = Some (CheckBox t1 ''Skip tests with these tags''
              (apply_exclude_tags (plugin self)))
      \<and> objects w1 (t1 + 3) = Some (TextCtrl t1 (150, - 1) (include_tags (plugin self)))
      \<and> objects w1 (t1 + 4) = Some (TextCtrl t1 (150, - 1) (exclude_tags (plugin self)))"
    if none: "toolbar self = None"
  proof -
    have t1: "t1 = next_ref w" and w1: "w1 = snd (TagsPanel self parent w)"
      using built [OF none] by simp_all
    show ?thesis
      unfolding t1 w1
      by (simp only: TagsPanel_next TagsPanel_parent TagsPanel_objects simp_thms)
  qed
  show ?thesis
    using cached built created by (simp add: first second prod_eq_iff TagsPanel_ref)
qed

theorem get_toolbar_twice_witness:
  "toolbar (init BaseProfile
      \<lparr>apply_include_tags = True, include_tags = ''smoke'',
       apply_exclude_tags = False, exclude_tags = [], save_calls = []\<rparr>) = None
   \<and> (let (t1, self1, w1) = get_toolbar (init BaseProfile
            \<lparr>apply_include_tags = True, include_tags = ''smoke'',
             apply_exclude_tags = False, exclude_tags = [], save_calls = []\<rparr>) 7
            \<lparr>objects = Map.empty, next_ref = 10, bindings = []\<rparr>;
          (t2, self2, w2) = get_toolbar self1 7 w1
      in t1 = 10 \<and> t2 = 10 \<and> toolbar self2 = Some 10 \<and> next_ref w2 = 15
         \<and> panel_parent w1 10 = Some 7 \<and> panel_parent w2 10 = Some 7
         \<and> objects w1 11 = Some (CheckBox 10 ''Only run tests with these tags'' True)
         \<and> objects w1 13 = Some (TextCtrl 10 (150, - 1) ''smoke'')
         \<and> objects \<lparr>objects = Map.empty, next_ref = 10, bindings = []\<rparr> 10 = None)"
  using get_toolbar_twice [of "init BaseProfile
      \<lparr>apply_include_tags = True, include_tags = ''smoke'',
       apply_exclude_tags = False, exclude_tags = [], save_calls = []\<rparr>" 7
      "\<lparr>objects = Map.empty, next_ref = 10, bindings = []\<rparr>"]
  by (simp add: init_def get_toolbar_None get_toolbar_Some split_beta)

lemma getattr_includeTags: "getattr self ''includeTags'' = Inl (AttributeError ''includeTags'')"
  by (simp add: getattr_def method_names_def)

lemma getattr_excludeTags: "getattr self ''excludeTags'' = Inl (AttributeError ''excludeTags'')"
  by (simp add: getattr_def method_names_def)

lemma text_handlers_raise:
  "OnIncludeTagsChanged self evt w = Inl (AttributeError ''includeTags'')"
  "OnExcludeTagsChanged self evt w = Inl (AttributeError ''excludeTags'')"
  by (simp_all add: OnIncludeTagsChanged_def OnExcludeTagsChanged_def getattr_includeTags
      getattr_excludeTags)

text \<open>
  Claim C10. Once \<^verbatim>\<open>get_toolbar\<close> has been called with a parent p1, no sequence
  of later method calls on the profile replaces the cached panel, and a later
  \<^verbatim>\<open>get_toolbar\<close> with any parent p2 returns that panel and builds nothing. When
  the first call built the panel, it was built for p1 and is still that object, with
  parent p1, afterwards.
\<close>

theorem cached_toolbar_never_replaced:
  "(let (t1, self1, w1) = get_toolbar self p1 w;
        (self2, w2) = run calls (self1, w1);
        (t2, self3, w3) = get_toolbar self2 p2 w2
    in t2 = t1 \<and> toolbar self1 = Some t1 \<and> toolbar self2 = Some t1 \<and> toolbar self3 = Some t1
       \<and> w3 = w2
       \<and> (toolbar self = None \<longrightarrow>
            panel_parent w1 t1 = Some p1 \<and> objects w3 t1 = objects w1 t1
            \<and> panel_parent w3 t2 = Some p1))"
proof -
  obtain t1 self1 w1 where first: "get_toolbar self p1 w = (t1, self1, w1)"
    by (cases "get_toolbar self p1 w")
  obtain self2 w2 where ran: "run calls (self1, w1) = (self2, w2)"
    by (cases "run calls (self1, w1)")
  have cached: "toolbar self1 = Some t1"
    using get_toolbar_caches [of self p1 w] first by simp
  have kept: "toolbar self2 = Some t1"
    using run_toolbar [OF cached, of calls w1] ran by simp
  have second: "get_toolbar self2 p2 w2 = (t1, self2, w2)"
    by (rule get_toolbar_Some [OF kept])
  have fresh: "panel_parent w1 t1 = Some p1 \<and> objects w2 t1 = objects w1 t1
      \<and> panel_parent w2 t1 = Some p1" if none: "toolbar self = None"
  proof -
    have t1: "t1 = next_ref w" and w1: "w1 = snd (TagsPanel self p1 w)"
      using first get_toolbar_None [OF none, of p1 w] by simp_all
    have built: "panel_parent w1 t1 = Some p1"
      unfolding t1 w1 by (rule TagsPanel_parent)
    have "t1 < next_ref w1"
      unfolding t1 w1 by (simp add: TagsPanel_next)
    then have same: "objects w2 t1 = objects w1 t1"
      using run_old_objects [of t1 w1 calls self1] ran by simp
    show ?thesis
      using built same by (simp add: panel_parent_def)
  qed
  show ?thesis
    using cached kept fresh by (simp add: first ran second)
qed

theorem cached_toolbar_never_replaced_witness:
  "toolbar (init PybotProfile
      \<lparr>apply_include_tags = True, include_tags = ''smoke'',
       apply_exclude_tags = False, exclude_tags = [], save_calls = []\<rparr>) = None
   \<and> (let (t1, self1, w1) = get_toolbar (init PybotProfile
            \<lparr>apply_include_tags = True, include_tags = ''smoke'',
             apply_exclude_tags = False, exclude_tags = [], save_calls = []\<rparr>) 7
            \<lparr>objects = Map.empty, next_ref = 10, bindings = []\<rparr>;
          (self2, w2) = run [Call_OnIncludeCheckbox \<lparr>IsChecked = False\<rparr>, Call_TagsPanel 3,
                             Call_OnIncludeTagsChanged \<lparr>IsChecked = False\<rparr>,
                             Call_get_toolbar 4, Call_get_custom_args] (self1, w1);
          (t2, self3, w3) = get_toolbar self2 9 w2
      in t1 = 10 \<and> t2 = 10 \<and> toolbar self3 = Some 10 \<and> panel_parent w3 t2 = Some 7
         \<and> next_ref w3 = 20)"
  using cached_toolbar_never_replaced [of "init PybotProfile
      \<lparr>apply_include_tags = True, include_tags = ''smoke'',
       apply_exclude_tags = False, exclude_tags = [], save_calls = []\<rparr>" 7
      "\<lparr>objects = Map.empty, next_ref = 10, bindings = []\<rparr>"
      "[Call_OnIncludeCheckbox \<lparr>IsChecked = False\<rparr>, Call_TagsPanel 3,
        Call_OnIncludeTagsChanged \<lparr>IsChecked = False\<rparr>,
        Call_get_toolbar 4, Call_get_custom_args]" 9]
  by (simp add: init_def get_toolbar_None get_toolbar_Some split_beta TagsPanel_next
      TagsPanel_old_objects TagsPanel_parent panel_parent_def text_handlers_raise
      OnIncludeCheckbox_def set_setting_def get_custom_args_def Let_def)

subsection \<open>The event handlers\<close>

text \<open>
  Claim C7. \<^verbatim>\<open>OnIncludeCheckbox\<close> makes exactly the call
  \<^verbatim>\<open>save_setting("apply_include_tags", evt.IsChecked(), delay=2)\<close> on the plugin:
  the profile changes by that call only, and the call is the one new entry of the
  plugin's list of calls. \<^verbatim>\<open>OnExcludeCheckbox\<close> does the same with
  \<^verbatim>\<open>"apply_exclude_tags"\<close>.
\<close>

theorem checkbox_handlers_save_setting:
  "OnIncludeCheckbox self evt
     = self\<lparr>plugin := save_setting ''apply_include_tags'' (BoolValue (IsChecked evt)) 2 (plugin self)\<rparr>
   \<and> save_calls (plugin (OnIncludeCheckbox self evt))
     = save_calls (plugin self) @
         [\<lparr>setting_name = ''apply_include_tags'', setting_value = BoolValue (IsChecked evt), delay = 2\<rparr>]
   \<and> OnExcludeCheckbox self evt
     = self\<lparr>plugin := save_setting ''apply_exclude_tags'' (BoolValue (IsChecked evt)) 2 (plugin self)\<rparr>
   \<and> save_calls (plugin (OnExcludeCheckbox self evt))
     = save_calls (plugin self) @
         [\<lparr>setting_name = ''apply_exclude_tags'', setting_value = BoolValue (IsChecked evt), delay = 2\<rparr>]"
  by (simp add: OnIncludeCheckbox_def OnExcludeCheckbox_def set_setting_def save_setting_def)

theorem checkbox_handlers_save_setting_witness:
  "save_calls (plugin (OnIncludeCheckbox (init BaseProfile
      \<lparr>apply_include_tags = False, include_tags = ''smoke'',
       apply_exclude_tags = False, exclude_tags = [], save_calls = []\<rparr>) \<lparr>IsChecked = True\<rparr>))
     = [\<lparr>setting_name = ''apply_include_tags'', setting_value = BoolValue True, delay = 2\<rparr>]
   \<and> save_calls (plugin (OnExcludeCheckbox (init BaseProfile
      \<lparr>apply_include_tags = False, include_tags = ''smoke'',
       apply_exclude_tags = False, exclude_tags = [], save_calls = []\<rparr>) \<lparr>IsChecked = True\<rparr>))
     = [\<lparr>setting_name = ''apply_exclude_tags'', setting_value = BoolValue True, delay = 2\<rparr>]"
  using checkbox_handlers_save_setting [of "init BaseProfile
      \<lparr>apply_include_tags = False, include_tags = ''smoke'',
       apply_exclude_tags = False, exclude_tags = [], save_calls = []\<rparr>" "\<lparr>IsChecked = True\<rparr>"]
  by (simp add: init_def save_setting_def)

text \<open>
  Claim C2 says that \<^verbatim>\<open>OnIncludeTagsChanged\<close> and \<^verbatim>\<open>OnExcludeTagsChanged\<close>
  call \<^verbatim>\<open>set_setting\<close> with the text of their control. On a profile whose toolbar
  has been built (the include text control is object 13 and holds the text),
  both handlers raise \<^verbatim>\<open>AttributeError\<close> instead, and no \<^verbatim>\<open>save_setting\<close> call
  is made: \<^verbatim>\<open>TagsPanel\<close> keeps the text controls in local variables, and nothing
  assigns \<^verbatim>\<open>self.includeTags\<close> or \<^verbatim>\<open>self.excludeTags\<close>.
\<close>

theorem tag_text_handlers_fail:
  "(let (panel, self, w) = get_toolbar (init PybotProfile
            \<lparr>apply_include_tags = True, include_tags = ''smoke'',
             apply_exclude_tags = False, exclude_tags = [], save_calls = []\<rparr>) 7
            \<lparr>objects = Map.empty, next_ref = 10, bindings = []\<rparr>
    in objects w 13 = Some (TextCtrl 10 (150, - 1) ''smoke'')
       \<and> OnIncludeTagsChanged self \<lparr>IsChecked = False\<rparr> w = Inl (AttributeError ''includeTags'')
       \<and> OnExcludeTagsChanged self \<lparr>IsChecked = False\<rparr> w = Inl (AttributeError ''excludeTags'')
       \<and> save_calls (plugin (fst (perform (Call_OnIncludeTagsChanged \<lparr>IsChecked = False\<rparr>) (self, w)))) = []
       \<and> save_calls (plugin (fst (perform (Call_OnExcludeTagsChanged \<lparr>IsChecked = False\<rparr>) (self, w)))) = [])"
  by (simp add: init_def get_toolbar_def TagsPanel_def create_checkbox_def wx_create_def
      SetValue_def Bind_def SetSizerAndFit_def Let_def OnIncludeTagsChanged_def
      OnExcludeTagsChanged_def getattr_def method_names_def)

end
